theory Spec2Isabelle
  imports Complex_Main "HOL-Library.AList"
begin

section \<open>JavaScript values and errors\<close>

text \<open>
  The values the handlers pass around untyped (\<^verbatim>\<open>any\<close>): request bodies, query
  strings, route parameters. An object is the list of its own properties in insertion
  order; a JSON array is the object of its index properties. Property reads see own
  properties only (nothing inherited from \<^verbatim>\<open>Object.prototype\<close>), and a primitive
  has none.
\<close>

datatype js_value =
    Undefined
  | Null
  | JBool bool
  | JNum int
  | JStr string
  | JObj "(string \<times> js_value) list"

datatype js_error =
    TypeError
  | ERR_HTTP_HEADERS_SENT
  | StoreError string

text \<open>
  \<^verbatim>\<open>source[field]\<close>: reading a property of \<^verbatim>\<open>undefined\<close> or \<^verbatim>\<open>null\<close>
  throws a TypeError; a property that is not there reads as \<^verbatim>\<open>undefined\<close>.
\<close>

fun js_get :: "js_value \<Rightarrow> string \<Rightarrow> js_error + js_value" where
  "js_get Undefined k = Inl TypeError"
| "js_get Null k = Inl TypeError"
| "js_get (JObj kvs) k = Inr (case map_of kvs k of None \<Rightarrow> Undefined | Some v \<Rightarrow> v)"
| "js_get (JBool b) k = Inr Undefined"
| "js_get (JNum n) k = Inr Undefined"
| "js_get (JStr s) k = Inr Undefined"

section \<open>formatZodError (src/app/utils/formatZodError.ts)\<close>

text \<open>
  A zod issue, with the members \<^verbatim>\<open>formatZodError\<close> reads. A path segment is kept
  as the property key it denotes (JavaScript turns a numeric segment into its decimal
  string when it is used as a key). \<^verbatim>\<open>minimum\<close> and \<^verbatim>\<open>options\<close> are members
  only some issue kinds have: \<open>None\<close> is \<^verbatim>\<open>!('minimum' in issue)\<close>.
\<close>

record zod_issue =
  issue_message :: string
  issue_code :: string
  issue_path :: "string list"
  issue_minimum :: "js_value option"
  issue_options :: "js_value list option"

record properties =
  prop_message :: string
  prop_type :: string
  prop_min :: "js_value option"
  prop_enum :: "js_value list option"

record validator_error =
  ve_message :: string
  ve_name :: string
  ve_properties :: properties
  ve_kind :: string
  ve_path :: "string option"
  ve_value :: js_value

record zod_error_response =
  zr_message :: string
  zr_success :: bool
  zr_error_name :: string
  zr_errors :: "(string \<times> validator_error) list"

text \<open>\<^verbatim>\<open>issue.path[0]\<close>: \<^verbatim>\<open>undefined\<close> (\<open>None\<close>) for an empty path.\<close>

definition field_of :: "zod_issue \<Rightarrow> string option" where
  "field_of issue = (case issue_path issue of [] \<Rightarrow> None | p # _ \<Rightarrow> Some p)"

text \<open>The property key a field denotes: \<^verbatim>\<open>undefined\<close> as a key is the string "undefined".\<close>

definition key_of :: "string option \<Rightarrow> string" where
  "key_of field = (case field of None \<Rightarrow> ''undefined'' | Some k \<Rightarrow> k)"

definition issue_properties :: "zod_issue \<Rightarrow> properties" where
  "issue_properties issue =
     \<lparr> prop_message = issue_message issue,
       prop_type = issue_code issue,
       prop_min = issue_minimum issue,
       prop_enum = issue_options issue \<rparr>"

text \<open>The object literal assigned to \<^verbatim>\<open>errors[field]\<close>, given what \<^verbatim>\<open>source[field]\<close> read.\<close>

definition validator_error_of :: "zod_issue \<Rightarrow> js_value \<Rightarrow> validator_error" where
  "validator_error_of issue v =
     \<lparr> ve_message = issue_message issue,
       ve_name = ''ValidatorError'',
       ve_properties = issue_properties issue,
       ve_kind = issue_code issue,
       ve_path = field_of issue,
       ve_value = v \<rparr>"

text \<open>
  The \<^verbatim>\<open>for (const issue of error.errors)\<close> loop. Assigning \<^verbatim>\<open>errors[field]\<close>
  replaces the value of a key that is already there, in place, and appends a new key:
  \<open>AList.update\<close>.
\<close>

fun format_issues ::
  "zod_issue list \<Rightarrow> js_value \<Rightarrow> (string \<times> validator_error) list
     \<Rightarrow> js_error + (string \<times> validator_error) list" where
  "format_issues [] source errors = Inr errors"
| "format_issues (issue # rest) source errors =
     (case js_get source (key_of (field_of issue)) of
        Inl e \<Rightarrow> Inl e
      | Inr v \<Rightarrow>
          format_issues rest source
            (AList.update (key_of (field_of issue)) (validator_error_of issue v) errors))"

text \<open>\<^verbatim>\<open>Array.prototype.join\<close> on strings.\<close>

fun join :: "string \<Rightarrow> string list \<Rightarrow> string" where
  "join sep [] = []"
| "join sep [x] = x"
| "join sep (x # y # ys) = x @ sep @ join sep (y # ys)"

text \<open>
  The function. \<^verbatim>\<open>Object.values(errors)\<close> lists the entries in insertion order
  (JavaScript would list integer-like keys first; no field of the request objects here
  is named by an integer), and an empty joined message is falsy.
\<close>

definition formatZodError :: "zod_issue list \<Rightarrow> js_value \<Rightarrow> js_error + zod_error_response" where
  "formatZodError issues source =
     (case format_issues issues source [] of
        Inl e \<Rightarrow> Inl e
      | Inr errors \<Rightarrow>
          (let errorMessages = join '', '' (map (\<lambda>(k, err). ve_message err) errors)
           in Inr \<lparr> zr_message = (if errorMessages = [] then ''Validation failed'' else errorMessages),
                    zr_success = False,
                    zr_error_name = ''ValidationError'',
                    zr_errors = errors \<rparr>))"

text \<open>
  For the statements below: the issue that wrote the entry of a key last, and the values
  whose properties can be read without a TypeError.
\<close>

definition last_issue_for :: "string \<Rightarrow> zod_issue list \<Rightarrow> zod_issue" where
  "last_issue_for k issues = last (filter (\<lambda>j. key_of (field_of j) = k) issues)"

definition readable :: "js_value \<Rightarrow> bool" where
  "readable source = (source \<noteq> Undefined \<and> source \<noteq> Null)"

section \<open>Books, responses and the document store\<close>

text \<open>
  \<^verbatim>\<open>IBooks\<close> (src/app/interfaces/books.interface.ts) with the document's
  \<^verbatim>\<open>_id\<close>. \<^verbatim>\<open>GENRES\<close> is declared in a file that is not among the sources, so
  a genre is the string that is stored.
\<close>

record book =
  book_id :: string
  title :: string
  author :: string
  genre :: string
  isbn :: string
  description :: string
  copies :: int
  available :: bool

text \<open>
  \<^verbatim>\<open>IReqQuery\<close>, with the \<^verbatim>\<open>page\<close> member the handler destructures. \<open>None\<close>
  is a member that is \<^verbatim>\<open>undefined\<close>.
\<close>

record req_query =
  q_filter :: "string option"
  q_sortBy :: "string option"
  q_sort :: "string option"
  q_limit :: "int option"
  q_page :: "int option"

text \<open>
  The \<^verbatim>\<open>pagination\<close> object of a listing. \<^verbatim>\<open>totalPages\<close> is \<open>None\<close> when
  \<^verbatim>\<open>Math.ceil(totalBooks / limit)\<close> is not a finite number (JSON writes it as null).
\<close>

record pagination =
  currentPage :: int
  totalPages :: "int option"
  totalBooks :: int
  pageLimit :: int
  hasNextPage :: bool
  hasPrevPage :: bool

text \<open>The JSON bodies the handlers send.\<close>

datatype body =
    ValidationFailed zod_error_response
  | Failure string
  | FailureWith string string
  | BookData string "book option"
  | BookList string "book list" pagination

text \<open>
  The response object: the \<^verbatim>\<open>res.status(c).json(b)\<close> calls made on it so far, in
  order. The first call sends the response. A later call finds the headers sent: Node
  throws ERR_HTTP_HEADERS_SENT when \<^verbatim>\<open>json\<close> sets the content type, and nothing
  more reaches the client. The call is recorded either way.
\<close>

type_synonym res = "(nat \<times> body) list"

definition status_json :: "nat \<Rightarrow> body \<Rightarrow> res \<Rightarrow> js_error option \<times> res" where
  "status_json c b res =
     (if res = [] then None else Some ERR_HTTP_HEADERS_SENT, res @ [(c, b)])"

definition delivered :: "res \<Rightarrow> (nat \<times> body) option" where
  "delivered res = (case res of [] \<Rightarrow> None | r # _ \<Rightarrow> Some r)"

text \<open>\<^verbatim>\<open>error instanceof Error ? error.message : "Unknown error"\<close>.\<close>

fun error_message :: "js_error \<Rightarrow> string" where
  "error_message TypeError = ''Cannot read properties of undefined''"
| "error_message ERR_HTTP_HEADERS_SENT = ''Cannot set headers after they are sent to the client''"
| "error_message (StoreError m) = m"

text \<open>
  The books collection: its documents in natural order, and whether the store answers
  (\<open>failure = Some m\<close>: every operation rejects with an error of message \<open>m\<close>).
\<close>

record store =
  docs :: "book list"
  failure :: "string option"

datatype db_op = OpFindById | OpFind | OpCountDocuments | OpCreate

text \<open>What a handler did: the response calls, the store operations, and the error it
  let escape (a rejected promise), if any.\<close>

record outcome =
  responses :: res
  db_ops :: "db_op list"
  uncaught :: "js_error option"

text \<open>\<^verbatim>\<open>Book.findById(bookId)\<close>: the document with that \<^verbatim>\<open>_id\<close>, or null.\<close>

definition findById :: "store \<Rightarrow> js_value \<Rightarrow> js_error + book option" where
  "findById st bookId =
     (case failure st of
        Some m \<Rightarrow> Inl (StoreError m)
      | None \<Rightarrow> Inr (find (\<lambda>b. JStr (book_id b) = bookId) (docs st)))"

text \<open>
  The filter document \<^verbatim>\<open>query\<close>: empty (\<open>None\<close>) or \<^verbatim>\<open>{genre: g}\<close>, an
  equality match.
\<close>

definition matching :: "string option \<Rightarrow> book list \<Rightarrow> book list" where
  "matching query ds = (case query of None \<Rightarrow> ds | Some g \<Rightarrow> filter (\<lambda>b. genre b = g) ds)"

definition countDocuments :: "store \<Rightarrow> string option \<Rightarrow> js_error + int" where
  "countDocuments st query =
     (case failure st of
        Some m \<Rightarrow> Inl (StoreError m)
      | None \<Rightarrow> Inr (int (length (matching query (docs st)))))"

text \<open>
  \<^verbatim>\<open>Book.find(query).sort(sortOptions).skip(skip).limit(limit)\<close>. How the store
  orders documents by a field is the store's business: \<open>srt field direction\<close> is a
  parameter, and an empty \<^verbatim>\<open>sortOptions\<close> (\<open>None\<close>) leaves the natural order.
  MongoDB rejects a negative skip, reads limit 0 as no limit and a negative limit as
  its absolute value.
\<close>

definition sort_docs ::
  "(string \<Rightarrow> int \<Rightarrow> book list \<Rightarrow> book list) \<Rightarrow> (string \<times> int) option \<Rightarrow> book list \<Rightarrow> book list" where
  "sort_docs srt sortOptions ds =
     (case sortOptions of None \<Rightarrow> ds | Some (field, direction) \<Rightarrow> srt field direction ds)"

definition limit_docs :: "int \<Rightarrow> book list \<Rightarrow> book list" where
  "limit_docs n ds = (if n = 0 then ds else take (nat \<bar>n\<bar>) ds)"

definition find_docs ::
  "(string \<Rightarrow> int \<Rightarrow> book list \<Rightarrow> book list) \<Rightarrow> store \<Rightarrow> string option
     \<Rightarrow> (string \<times> int) option \<Rightarrow> int \<Rightarrow> int \<Rightarrow> js_error + book list" where
  "find_docs srt st query sortOptions skip limit =
     (case failure st of
        Some m \<Rightarrow> Inl (StoreError m)
      | None \<Rightarrow>
          if skip < 0 then Inl (StoreError ''Skip value must be non-negative'')
          else Inr (limit_docs limit (drop (nat skip) (sort_docs srt sortOptions (matching query (docs st))))))"

text \<open>\<^verbatim>\<open>String.prototype.toUpperCase\<close>, on ASCII letters.\<close>

definition toUpperCase_char :: "char \<Rightarrow> char" where
  "toUpperCase_char c =
     (let n = (of_char c :: nat) in if 97 \<le> n \<and> n \<le> 122 then char_of (n - 32) else c)"

definition toUpperCase :: "string \<Rightarrow> string" where
  "toUpperCase s = map toUpperCase_char s"

text \<open>
  \<^verbatim>\<open>Math.ceil(a / b)\<close> on integers: \<open>None\<close> when \<^verbatim>\<open>b\<close> is 0 and the quotient is
  Infinity or NaN.
\<close>

definition math_ceil_div :: "int \<Rightarrow> int \<Rightarrow> int option" where
  "math_ceil_div a b = (if b = 0 then None else Some \<lceil>real_of_int a / real_of_int b\<rceil>)"

section \<open>The books controller\<close>

text \<open>
  The schemas (\<^verbatim>\<open>bookSchema\<close>, \<^verbatim>\<open>bookParamsSchema\<close>, \<^verbatim>\<open>querySchema\<close>) are
  declared in a file that is not among the sources. A handler takes its schema as a
  parameter: \<^verbatim>\<open>safeParse\<close> as a function from the input to the issues (\<open>Inl\<close>) or
  the parsed data (\<open>Inr\<close>).
\<close>

text \<open>
  \<^verbatim>\<open>catch (error) { res.status(500).json({success: false, message, error: ...}) }\<close>
  around a try block that ended with or without an error.
\<close>

definition catch_500 :: "string \<Rightarrow> js_error option \<times> res \<Rightarrow> js_error option \<times> res" where
  "catch_500 msg r =
     (case r of
        (None, res) \<Rightarrow> (None, res)
      | (Some error, res) \<Rightarrow> status_json 500 (FailureWith msg (error_message error)) res)"

subsection \<open>POST /api/books\<close>

text \<open>
  \<^verbatim>\<open>Book.create\<close> belongs to the model, which is not among the sources: \<open>create\<close>
  is a parameter. The validation branch runs outside the try block.
\<close>

definition booksRoutes_post ::
  "(js_value \<Rightarrow> zod_issue list + 'd) \<Rightarrow> ('d \<Rightarrow> store \<Rightarrow> js_error + book \<times> store)
     \<Rightarrow> store \<Rightarrow> js_value \<Rightarrow> outcome \<times> store" where
  "booksRoutes_post bookSchema create st reqBody =
     (case bookSchema reqBody of
        Inl issues \<Rightarrow>
          (case formatZodError issues reqBody of
             Inl e \<Rightarrow> (\<lparr>responses = [], db_ops = [], uncaught = Some e\<rparr>, st)
           | Inr errorResponse \<Rightarrow>
               (case status_json 400 (ValidationFailed errorResponse) [] of
                  (e, res) \<Rightarrow> (\<lparr>responses = res, db_ops = [], uncaught = e\<rparr>, st)))
      | Inr parsed \<Rightarrow>
          (case create parsed st of
             Inl error \<Rightarrow>
               (case catch_500 ''Error creating book'' (Some error, []) of
                  (e, res) \<Rightarrow> (\<lparr>responses = res, db_ops = [OpCreate], uncaught = e\<rparr>, st))
           | Inr (created, st') \<Rightarrow>
               (case catch_500 ''Error creating book''
                       (status_json 201 (BookData ''Book created successfully'' (Some created)) []) of
                  (e, res) \<Rightarrow> (\<lparr>responses = res, db_ops = [OpCreate], uncaught = e\<rparr>, st'))))"

subsection \<open>GET /api/books\<close>

text \<open>
  The destructuring \<^verbatim>\<open>{ filter, sortBy, sort, limit = 10, page = 1 }\<close>: a default
  stands in for a member that is \<^verbatim>\<open>undefined\<close>.
\<close>

definition limit_of :: "req_query \<Rightarrow> int" where
  "limit_of parsed = (case q_limit parsed of None \<Rightarrow> 10 | Some l \<Rightarrow> l)"

definition page_of :: "req_query \<Rightarrow> int" where
  "page_of parsed = (case q_page parsed of None \<Rightarrow> 1 | Some p \<Rightarrow> p)"

text \<open>
  \<^verbatim>\<open>if (filter) { query.genre = filter.toUpperCase(); }\<close> and
  \<^verbatim>\<open>if (sortBy) { sortOptions[sortBy] = sort === "desc" ? -1 : 1; }\<close>: the empty
  string is falsy, as \<^verbatim>\<open>undefined\<close> is.
\<close>

definition build_query :: "req_query \<Rightarrow> string option" where
  "build_query parsed =
     (case q_filter parsed of
        None \<Rightarrow> None
      | Some f \<Rightarrow> if f = [] then None else Some (toUpperCase f))"

definition build_sortOptions :: "req_query \<Rightarrow> (string \<times> int) option" where
  "build_sortOptions parsed =
     (case q_sortBy parsed of
        None \<Rightarrow> None
      | Some sortBy \<Rightarrow>
          if sortBy = [] then None
          else Some (sortBy, if q_sort parsed = Some ''desc'' then - 1 else 1))"

text \<open>The try block: the response calls and store operations made, and the error that
  ended it, if one did.\<close>

definition booksRoutes_get_try ::
  "(string \<Rightarrow> int \<Rightarrow> book list \<Rightarrow> book list) \<Rightarrow> (js_value \<Rightarrow> zod_issue list + req_query)
     \<Rightarrow> store \<Rightarrow> (string \<times> js_value) list \<Rightarrow> (js_error option \<times> res) \<times> db_op list" where
  "booksRoutes_get_try srt querySchema st reqQuery =
     (if reqQuery = [] then
        (case find_docs srt st None None 0 10 of
           Inl e \<Rightarrow> ((Some e, []), [OpFind])
         | Inr books \<Rightarrow>
             (case countDocuments st None of
                Inl e \<Rightarrow> ((Some e, []), [OpFind, OpCountDocuments])
              | Inr totalN \<Rightarrow>
                  (status_json 200
                     (BookList ''Books retrieved successfully'' books
                        \<lparr> currentPage = 1,
                          totalPages = math_ceil_div totalN 10,
                          totalBooks = totalN,
                          pageLimit = 10,
                          hasNextPage = (10 < totalN),
                          hasPrevPage = False \<rparr>) [],
                   [OpFind, OpCountDocuments])))
      else
        (case querySchema (JObj reqQuery) of
           Inl issues \<Rightarrow>
             (case formatZodError issues (JObj reqQuery) of
                Inl e \<Rightarrow> ((Some e, []), [])
              | Inr errorResponse \<Rightarrow> (status_json 400 (ValidationFailed errorResponse) [], []))
         | Inr parsed \<Rightarrow>
             (let limit = limit_of parsed;
                  page = page_of parsed;
                  query = build_query parsed;
                  sortOptions = build_sortOptions parsed;
                  skip = (page - 1) * limit
              in case countDocuments st query of
                   Inl e \<Rightarrow> ((Some e, []), [OpCountDocuments])
                 | Inr totalN \<Rightarrow>
                     (let pages = math_ceil_div totalN limit
                      in case find_docs srt st query sortOptions skip limit of
                           Inl e \<Rightarrow> ((Some e, []), [OpCountDocuments, OpFind])
                         | Inr books \<Rightarrow>
                             (status_json 200
                                (BookList ''Books retrieved successfully'' books
                                   \<lparr> currentPage = page,
                                     totalPages = pages,
                                     totalBooks = totalN,
                                     pageLimit = limit,
                                     hasNextPage = (case pages of
                                                      Some tp \<Rightarrow> page < tp
                                                    | None \<Rightarrow> 0 < totalN),
                                     hasPrevPage = (1 < page) \<rparr>) [],
                              [OpCountDocuments, OpFind])))))"

definition booksRoutes_get ::
  "(string \<Rightarrow> int \<Rightarrow> book list \<Rightarrow> book list) \<Rightarrow> (js_value \<Rightarrow> zod_issue list + req_query)
     \<Rightarrow> store \<Rightarrow> (string \<times> js_value) list \<Rightarrow> outcome" where
  "booksRoutes_get srt querySchema st reqQuery =
     (case booksRoutes_get_try srt querySchema st reqQuery of
        (tried, ops) \<Rightarrow>
          (case catch_500 ''Error fetching books'' tried of
             (e, res) \<Rightarrow> \<lparr>responses = res, db_ops = ops, uncaught = e\<rparr>))"

subsection \<open>GET /api/books/:bookId\<close>

text \<open>
  The try block. The 404 branch has no \<^verbatim>\<open>return\<close>: control goes on to the
  \<^verbatim>\<open>res.status(200).json\<close> call below it.
\<close>

definition booksRoutes_get_by_id_try :: "store \<Rightarrow> js_value \<Rightarrow> js_error option \<times> res" where
  "booksRoutes_get_by_id_try st bookId =
     (case findById st bookId of
        Inl e \<Rightarrow> (Some e, [])
      | Inr found \<Rightarrow>
          (case (if found = None then status_json 404 (Failure ''Book not found'') []
                 else (None, [])) of
             (Some e, res) \<Rightarrow> (Some e, res)
           | (None, res) \<Rightarrow>
               status_json 200 (BookData ''Book retrieved successfully'' found) res))"

definition booksRoutes_get_by_id ::
  "(js_value \<Rightarrow> zod_issue list + 'p) \<Rightarrow> store \<Rightarrow> (string \<times> js_value) list \<Rightarrow> outcome" where
  "booksRoutes_get_by_id bookParamsSchema st reqParams =
     (case bookParamsSchema (JObj reqParams) of
        Inl issues \<Rightarrow>
          (case formatZodError issues (JObj reqParams) of
             Inl e \<Rightarrow> \<lparr>responses = [], db_ops = [], uncaught = Some e\<rparr>
           | Inr errorResponse \<Rightarrow>
               (case status_json 400 (ValidationFailed errorResponse) [] of
                  (e, res) \<Rightarrow> \<lparr>responses = res, db_ops = [], uncaught = e\<rparr>))
      | Inr parsed \<Rightarrow>
          (let bookId = (case map_of reqParams ''bookId'' of None \<Rightarrow> Undefined | Some v \<Rightarrow> v)
           in case catch_500 ''Error retrieving book'' (booksRoutes_get_by_id_try st bookId) of
                (e, res) \<Rightarrow> \<lparr>responses = res, db_ops = [OpFindById], uncaught = e\<rparr>))"

section \<open>The server (src/server.ts)\<close>

text \<open>
  The module-level flag, and a count of the \<^verbatim>\<open>mongoose.connect\<close> calls made.
  \<open>connectDB ok\<close> is one awaited call of \<^verbatim>\<open>connectDB\<close>, where \<open>ok\<close> says whether
  \<^verbatim>\<open>mongoose.connect\<close> resolves if it is invoked; when it rejects, the assignment
  after the await is not reached.
\<close>

record server =
  isConnected :: bool
  connect_calls :: nat

definition initial_server :: server where
  "initial_server = \<lparr>isConnected = False, connect_calls = 0\<rparr>"

definition connectDB :: "bool \<Rightarrow> server \<Rightarrow> js_error option \<times> server" where
  "connectDB ok s =
     (if \<not> isConnected s then
        (if ok then (None, s\<lparr>connect_calls := connect_calls s + 1, isConnected := True\<rparr>)
         else (Some (StoreError ''connect failed''), s\<lparr>connect_calls := connect_calls s + 1\<rparr>))
      else (None, s))"

text \<open>Calls of \<^verbatim>\<open>connectDB\<close> one after the other, each awaited, whatever it returned.\<close>

fun connectDB_calls :: "bool list \<Rightarrow> server \<Rightarrow> server" where
  "connectDB_calls [] s = s"
| "connectDB_calls (ok # oks) s = connectDB_calls oks (snd (connectDB ok s))"

section \<open>Book entity logic, borrow workflow and aggregation\<close>

text \<open>
  The Book and Borrow models and the borrow controller are not among the sources (of
  the entity logic only the signature \<^verbatim>\<open>updateBookCopiesAndAvailable(book, quantity)\<close>
  is, in \<^verbatim>\<open>IBookStaticMethod\<close>). The definitions of this section follow the
  specification's sections 3, 4.1, 4.2, 4.3 and 7.
\<close>

text \<open>Modelled from the spec: the error taxonomy of section 7 (the model and controller
  that raise these errors are missing) and the status each kind is surfaced as.\<close>

datatype workflow_error = ValidationError | NotFoundError | BusinessRuleError

text \<open>Modelled from the spec: section 7, ValidationError and BusinessRuleError are
  surfaced as 400, NotFoundError as 404 (the borrow controller is missing).\<close>

fun status_of :: "workflow_error \<Rightarrow> nat" where
  "status_of ValidationError = 400"
| "status_of NotFoundError = 404"
| "status_of BusinessRuleError = 400"

text \<open>Modelled from the spec: the recomputation of the derived flag, "true iff
  resulting copies > 0" (section 4.1; the Book model with its pre hook is missing).\<close>

definition recompute_available :: "book \<Rightarrow> book" where
  "recompute_available b = b\<lparr>available := (0 < copies b)\<rparr>"

text \<open>Modelled from the spec: the borrow-triggered decrement, "decrement book.copies by
  quantity, invoking the availability-recompute contract" (section 4.2, step 3; the
  static method of the missing Book model).\<close>

definition updateBookCopiesAndAvailable :: "book \<Rightarrow> int \<Rightarrow> book" where
  "updateBookCopiesAndAvailable b quantity =
     recompute_available (b\<lparr>copies := copies b - quantity\<rparr>)"

text \<open>Modelled from the spec: the direct administrative update of the copy count;
  "copies must be a non-negative integer; attempts to set it negative fail with a
  validation error and no mutation occurs" (section 4.1; the Book model and its update
  hook are missing).\<close>

definition updateCopies :: "book \<Rightarrow> int \<Rightarrow> workflow_error + book" where
  "updateCopies b n =
     (if n < 0 then Inl ValidationError else Inr (recompute_available (b\<lparr>copies := n\<rparr>)))"

text \<open>Modelled from the spec: the two paths that change \<^verbatim>\<open>copies\<close>, "direct
  administrative updates and borrow-triggered decrements" (section 4.1; both live in the
  missing Book model).\<close>

datatype copies_change = AdminUpdate int | BorrowDecrement int

text \<open>Modelled from the spec: a mutation of \<^verbatim>\<open>copies\<close> through either path of
  section 4.1 (the Book model is missing).\<close>

fun change_copies :: "book \<Rightarrow> copies_change \<Rightarrow> workflow_error + book" where
  "change_copies b (AdminUpdate n) = updateCopies b n"
| "change_copies b (BorrowDecrement quantity) = Inr (updateBookCopiesAndAvailable b quantity)"

text \<open>Modelled from the spec: the Borrow entity of section 3, a reference to a book, a
  quantity and a due date (the Borrow model is missing); a borrow request has the same
  members.\<close>

record borrow =
  borrowed_book :: string
  quantity :: int
  dueDate :: int

text \<open>Modelled from the spec: the two collections of the document store, books and
  borrow records (section 2; the models are missing).\<close>

record library =
  lib_books :: "book list"
  lib_borrows :: "borrow list"

text \<open>Modelled from the spec: looking a Book up by reference (section 4.2, step 1; the
  borrow controller is missing).\<close>

definition lookup_book :: "library \<Rightarrow> string \<Rightarrow> book option" where
  "lookup_book lib ref = find (\<lambda>b. book_id b = ref) (lib_books lib)"

text \<open>Modelled from the spec: the borrow workflow of section 4.2 (the borrow controller
  is missing). Validation comes first (quantity a positive integer, due date strictly
  after the current time), then the lookup (Not-Found if absent), then the stock check
  (business-rule error if \<^verbatim>\<open>quantity > book.copies\<close>), then the decrement with the
  recomputed flag and the new Borrow record, which is returned. A failure leaves the
  store as it was.\<close>

definition createBorrow ::
  "int \<Rightarrow> library \<Rightarrow> borrow \<Rightarrow> (workflow_error + borrow) \<times> library" where
  "createBorrow now lib request =
     (if quantity request < 1 \<or> dueDate request \<le> now then (Inl ValidationError, lib)
      else case lookup_book lib (borrowed_book request) of
        None \<Rightarrow> (Inl NotFoundError, lib)
      | Some b \<Rightarrow>
          if copies b < quantity request then (Inl BusinessRuleError, lib)
          else (Inr request,
                \<lparr> lib_books =
                    map (\<lambda>x. if book_id x = book_id b
                              then updateBookCopiesAndAvailable x (quantity request) else x)
                      (lib_books lib),
                  lib_borrows = lib_borrows lib @ [request] \<rparr>))"

text \<open>Modelled from the spec: the tuples of the aggregation summary,
  \<^verbatim>\<open>{ bookTitle, isbn, totalQuantityBorrowed }\<close> (section 4.3; the borrow controller
  is missing).\<close>

record summary_row =
  bookTitle :: string
  row_isbn :: string
  totalQuantityBorrowed :: int

text \<open>Modelled from the spec: the grouping stage of section 4.3, "a grouping/summing
  query over borrow records" (the aggregation pipeline is missing): a record adds its
  quantity to the group of its book, or opens that group.\<close>

fun add_to_group :: "string \<Rightarrow> int \<Rightarrow> (string \<times> int) list \<Rightarrow> (string \<times> int) list" where
  "add_to_group k q [] = [(k, q)]"
| "add_to_group k q ((k', t) # groups) =
     (if k' = k then (k', t + q) # groups else (k', t) # add_to_group k q groups)"

text \<open>Modelled from the spec: the groups of all borrow records, one per book reference
  (section 4.3; the aggregation pipeline is missing).\<close>

definition group_borrows :: "borrow list \<Rightarrow> (string \<times> int) list" where
  "group_borrows rs = fold (\<lambda>r groups. add_to_group (borrowed_book r) (quantity r) groups) rs []"

text \<open>Modelled from the spec: the join of a group with its book's metadata, "an
  inner-join/grouping semantic, not a full outer join" (section 4.3; the aggregation
  pipeline is missing): a group whose book is not in the store yields nothing.\<close>

definition join_book :: "library \<Rightarrow> string \<times> int \<Rightarrow> (string \<times> summary_row) option" where
  "join_book lib g =
     (case lookup_book lib (fst g) of
        None \<Rightarrow> None
      | Some b \<Rightarrow>
          Some (fst g, \<lparr> bookTitle = title b, row_isbn = isbn b,
                         totalQuantityBorrowed = snd g \<rparr>))"

text \<open>Modelled from the spec: the summary's rows, each with the reference of its book
  (section 4.3; the aggregation pipeline is missing).\<close>

definition summary_entries :: "library \<Rightarrow> (string \<times> summary_row) list" where
  "summary_entries lib = List.map_filter (join_book lib) (group_borrows (lib_borrows lib))"

text \<open>Modelled from the spec: the aggregation summary of \<^verbatim>\<open>GET /api/borrow\<close>, the
  sequence of tuples (section 4.3; the borrow controller is missing).\<close>

definition borrowedBooksSummary :: "library \<Rightarrow> summary_row list" where
  "borrowedBooksSummary lib = map snd (summary_entries lib)"

text \<open>The borrow records the quantities of whose sum is the total of a book.\<close>

definition borrows_of :: "library \<Rightarrow> string \<Rightarrow> borrow list" where
  "borrows_of lib k = filter (\<lambda>r. borrowed_book r = k) (lib_borrows lib)"

section \<open>Concrete inputs\<close>

text \<open>
  Inputs for the evaluations at the end of the development: a request body with a
  non-string title and a negative number of copies, and the issues a schema reports
  for it, two of them on \<^verbatim>\<open>copies\<close>.
\<close>

definition example_body :: js_value where
  "example_body = JObj [(''title'', JNum 5), (''copies'', JNum (- 1))]"

definition issue_title :: zod_issue where
  "issue_title =
     \<lparr> issue_message = ''Expected string, received number'',
       issue_code = ''invalid_type'',
       issue_path = [''title''],
       issue_minimum = None,
       issue_options = None \<rparr>"

definition issue_copies_min :: zod_issue where
  "issue_copies_min =
     \<lparr> issue_message = ''Copies must be a positive number'',
       issue_code = ''too_small'',
       issue_path = [''copies''],
       issue_minimum = Some (JNum 0),
       issue_options = None \<rparr>"

definition issue_copies_nested :: zod_issue where
  "issue_copies_nested =
     \<lparr> issue_message = ''Invalid input'',
       issue_code = ''custom'',
       issue_path = [''copies'', ''amount''],
       issue_minimum = None,
       issue_options = None \<rparr>"

definition example_issues :: "zod_issue list" where
  "example_issues = [issue_copies_min, issue_title, issue_copies_nested]"

text \<open>
  An instance of the body schema. As an object schema does, it reports one issue with
  an empty path for a body that is \<^verbatim>\<open>undefined\<close> or \<^verbatim>\<open>null\<close>; it reports
  \<open>example_issues\<close> for a body whose \<^verbatim>\<open>copies\<close> is negative and accepts every
  other body.
\<close>

definition issue_required :: zod_issue where
  "issue_required =
     \<lparr> issue_message = ''Required'',
       issue_code = ''invalid_type'',
       issue_path = [],
       issue_minimum = None,
       issue_options = None \<rparr>"

definition example_bookSchema :: "js_value \<Rightarrow> zod_issue list + js_value" where
  "example_bookSchema b =
     (case js_get b ''copies'' of
        Inl e \<Rightarrow> Inl [issue_required]
      | Inr (JNum n) \<Rightarrow> if n < 0 then Inl example_issues else Inr b
      | Inr v \<Rightarrow> Inr b)"

text \<open>An instance of \<^verbatim>\<open>Book.create\<close> that stores nothing and always rejects.\<close>

definition example_create :: "js_value \<Rightarrow> store \<Rightarrow> js_error + book \<times> store" where
  "example_create d st = Inl (StoreError ''E11000 duplicate key error'')"

text \<open>
  An instance of the params schema: an identifier is well formed when it is a string
  of 24 hexadecimal digits.
\<close>

definition is_hex :: "char \<Rightarrow> bool" where
  "is_hex c =
     (let n = (of_char c :: nat)
      in (48 \<le> n \<and> n \<le> 57) \<or> (65 \<le> n \<and> n \<le> 70) \<or> (97 \<le> n \<and> n \<le> 102))"

definition issue_bookId :: zod_issue where
  "issue_bookId =
     \<lparr> issue_message = ''Invalid book ID'',
       issue_code = ''custom'',
       issue_path = [''bookId''],
       issue_minimum = None,
       issue_options = None \<rparr>"

definition example_bookParamsSchema :: "js_value \<Rightarrow> zod_issue list + string" where
  "example_bookParamsSchema p =
     (case js_get p ''bookId'' of
        Inr (JStr s) \<Rightarrow> if length s = 24 \<and> list_all is_hex s then Inr s else Inl [issue_bookId]
      | _ \<Rightarrow> Inl [issue_bookId])"

text \<open>A store of four books, three of them of genre FANTASY.\<close>

definition example_book :: "string \<Rightarrow> string \<Rightarrow> int \<Rightarrow> book" where
  "example_book i g c =
     \<lparr> book_id = i, title = ''Title '' @ i, author = ''Author'', genre = g,
       isbn = ''isbn-'' @ i, description = [], copies = c, available = (0 < c) \<rparr>"

definition example_store :: store where
  "example_store =
     \<lparr> docs = [example_book ''a1'' ''FANTASY'' 2, example_book ''a2'' ''SCIENCE'' 1,
              example_book ''a3'' ''FANTASY'' 0, example_book ''a4'' ''FANTASY'' 5],
       failure = None \<rparr>"

text \<open>
  The query \<^verbatim>\<open>?filter=fantasy&limit=2&page=2\<close>, an instance of the query schema that
  accepts it, and an instance of the store's ordering: natural order, reversed for a
  descending sort.
\<close>

definition example_query :: "(string \<times> js_value) list" where
  "example_query = [(''filter'', JStr ''fantasy''), (''limit'', JStr ''2''), (''page'', JStr ''2'')]"

definition example_parsed :: req_query where
  "example_parsed =
     \<lparr> q_filter = Some ''fantasy'', q_sortBy = None, q_sort = None,
       q_limit = Some 2, q_page = Some 2 \<rparr>"

definition issue_query :: zod_issue where
  "issue_query =
     \<lparr> issue_message = ''Invalid query'',
       issue_code = ''custom'',
       issue_path = [],
       issue_minimum = None,
       issue_options = None \<rparr>"

definition example_querySchema :: "js_value \<Rightarrow> zod_issue list + req_query" where
  "example_querySchema q = (if q = JObj example_query then Inr example_parsed else Inl [issue_query])"

definition example_srt :: "string \<Rightarrow> int \<Rightarrow> book list \<Rightarrow> book list" where
  "example_srt field direction ds = (if direction < 0 then rev ds else ds)"

text \<open>
  A library of the example books with the borrow records of the specification's
  example, \<^verbatim>\<open>{bookA: 2, bookA: 3, bookB: 5}\<close>, here on the books a1 and a4, and a
  request for more copies of a1 than there are.
\<close>

definition example_library :: library where
  "example_library =
     \<lparr> lib_books = docs example_store,
       lib_borrows =
         [\<lparr>borrowed_book = ''a1'', quantity = 2, dueDate = 100\<rparr>,
          \<lparr>borrowed_book = ''a1'', quantity = 3, dueDate = 200\<rparr>,
          \<lparr>borrowed_book = ''a4'', quantity = 5, dueDate = 300\<rparr>] \<rparr>"

definition example_request :: borrow where
  "example_request = \<lparr>borrowed_book = ''a1'', quantity = 3, dueDate = 500\<rparr>"

text \<open>What \<^verbatim>\<open>formatZodError\<close> returns for \<open>example_issues\<close> and \<open>example_body\<close>.\<close>

definition example_formatted :: zod_error_response where
  "example_formatted =
     \<lparr> zr_message = ''Invalid input, Expected string, received number'',
       zr_success = False,
       zr_error_name = ''ValidationError'',
       zr_errors =
         [(''copies'', validator_error_of issue_copies_nested (JNum (- 1))),
          (''title'', validator_error_of issue_title (JNum 5))] \<rparr>"

section \<open>Properties of formatZodError\<close>

lemma js_get_readable:
  "readable source \<Longrightarrow> \<exists>v. js_get source k = Inr v"
  by (cases source) (simp_all add: readable_def)

lemma format_issues_total:
  "readable source \<Longrightarrow> \<exists>errors'. format_issues issues source errors = Inr errors'"
proof (induction issues arbitrary: errors)
  case Nil
  then show ?case by simp
next
  case (Cons issue rest)
  from js_get_readable [OF Cons.prems]
  obtain v where "js_get source (key_of (field_of issue)) = Inr v" by blast
  with Cons.IH [OF Cons.prems] show ?case by simp
qed

lemma format_issues_keys:
  "format_issues issues source errors = Inr errors' \<Longrightarrow>
   fst ` set errors' = fst ` set errors \<union> (\<lambda>j. key_of (field_of j)) ` set issues"
proof (induction issues arbitrary: errors)
  case Nil
  then show ?case by simp
next
  case (Cons issue rest)
  then show ?case
    by (auto split: sum.splits simp: dom_update)
qed

lemma format_issues_distinct:
  "format_issues issues source errors = Inr errors' \<Longrightarrow> distinct (map fst errors)
   \<Longrightarrow> distinct (map fst errors')"
proof (induction issues arbitrary: errors)
  case Nil
  then show ?case by simp
next
  case (Cons issue rest)
  then show ?case
    by (auto split: sum.splits simp: distinct_update)
qed

lemma format_issues_lookup:
  "format_issues issues source errors = Inr errors' \<Longrightarrow>
   map_of errors' k =
     (if \<exists>j \<in> set issues. key_of (field_of j) = k
      then (case js_get source k of
              Inr v \<Rightarrow> Some (validator_error_of (last_issue_for k issues) v)
            | Inl e \<Rightarrow> None)
      else map_of errors k)"
proof (induction issues arbitrary: errors)
  case Nil
  then show ?case by simp
next
  case (Cons issue rest)
  from Cons.prems obtain v where
    v: "js_get source (key_of (field_of issue)) = Inr v" and
    rest: "format_issues rest source
             (AList.update (key_of (field_of issue)) (validator_error_of issue v) errors) = Inr errors'"
    by (auto split: sum.splits)
  note IH = Cons.IH [OF rest]
  show ?case
  proof (cases "\<exists>j \<in> set rest. key_of (field_of j) = k")
    case True
    then have "filter (\<lambda>j. key_of (field_of j) = k) rest \<noteq> []"
      by (auto simp: filter_empty_conv)
    then have "last_issue_for k (issue # rest) = last_issue_for k rest"
      by (simp add: last_issue_for_def)
    with IH True show ?thesis by (simp cong: sum.case_cong)
  next
    case False
    then have empty: "filter (\<lambda>j. key_of (field_of j) = k) rest = []"
      by (auto simp: filter_empty_conv)
    show ?thesis
    proof (cases "key_of (field_of issue) = k")
      case True
      with empty have "last_issue_for k (issue # rest) = issue"
        by (simp add: last_issue_for_def)
      with IH False True v show ?thesis
        by (simp add: update_conv' cong: sum.case_cong)
    next
      case neq: False
      with IH False show ?thesis
        by (simp add: update_conv' cong: sum.case_cong)
    qed
  qed
qed

lemma formatZodError_readable:
  assumes "readable source"
  shows "\<exists>r. formatZodError issues source = Inr r"
proof -
  from format_issues_total [OF assms]
  obtain errors where "format_issues issues source [] = Inr errors" by blast
  then show ?thesis by (simp add: formatZodError_def Let_def)
qed

lemma formatZodError_entry:
  assumes "formatZodError issues source = Inr r" and "i \<in> set issues"
  shows "\<exists>v. js_get source (key_of (field_of i)) = Inr v \<and>
             map_of (zr_errors r) (key_of (field_of i)) =
               Some (validator_error_of (last_issue_for (key_of (field_of i)) issues) v)"
proof -
  from assms(1) obtain errors where
    loop: "format_issues issues source [] = Inr errors" and r: "zr_errors r = errors"
    by (auto simp: formatZodError_def Let_def split: sum.splits)
  have "key_of (field_of i) \<in> fst ` set errors"
    using format_issues_keys [OF loop] assms(2) by simp
  then obtain e where e: "map_of errors (key_of (field_of i)) = Some e"
    by (metis domD dom_map_of_conv_image_fst)
  from assms(2) have "\<exists>j \<in> set issues. key_of (field_of j) = key_of (field_of i)" by blast
  with format_issues_lookup [OF loop, of "key_of (field_of i)"] e r
  show ?thesis by (auto split: sum.splits)
qed

lemma example_formatted_eval:
  "formatZodError example_issues example_body = Inr example_formatted"
  by (simp add: formatZodError_def example_issues_def example_body_def example_formatted_def
      issue_title_def issue_copies_min_def issue_copies_nested_def field_of_def key_of_def
      validator_error_of_def issue_properties_def)

text \<open>
  C10. The error map is keyed by the first path segment of each issue only: its keys are
  exactly the first segments of the issues (so an issue on a nested field
  \<^verbatim>\<open>["copies", "amount"]\<close> is reported under \<^verbatim>\<open>copies\<close>), no key occurs twice,
  and the entry of a key is the one built from the last issue with that first segment,
  whatever the rest of its path is.
\<close>

theorem formatZodError_keyed_by_first_segment:
  assumes "formatZodError issues source = Inr r"
  shows "fst ` set (zr_errors r) = (\<lambda>j. key_of (field_of j)) ` set issues
       \<and> distinct (map fst (zr_errors r))
       \<and> (\<forall>i \<in> set issues. \<exists>v.
             js_get source (key_of (field_of i)) = Inr v \<and>
             map_of (zr_errors r) (key_of (field_of i)) =
               Some (validator_error_of (last_issue_for (key_of (field_of i)) issues) v))"
proof -
  from assms obtain errors where
    loop: "format_issues issues source [] = Inr errors" and r: "zr_errors r = errors"
    by (auto simp: formatZodError_def Let_def split: sum.splits)
  have keys: "fst ` set errors = (\<lambda>j. key_of (field_of j)) ` set issues"
    using format_issues_keys [OF loop] by simp
  have dist: "distinct (map fst errors)"
    using format_issues_distinct [OF loop] by simp
  from keys dist r formatZodError_entry [OF assms] show ?thesis by blast
qed

text \<open>
  The theorem at \<open>example_issues\<close>: three issues, two of them on \<^verbatim>\<open>copies\<close>, give
  two entries, and the entry of \<^verbatim>\<open>copies\<close> is the one of the nested issue, which
  came last.
\<close>

theorem formatZodError_keyed_by_first_segment_witness:
  "formatZodError example_issues example_body = Inr example_formatted
   \<and> fst ` set (zr_errors example_formatted) = {''copies'', ''title''}
   \<and> distinct (map fst (zr_errors example_formatted))
   \<and> map_of (zr_errors example_formatted) ''copies'' =
       Some (validator_error_of issue_copies_nested (JNum (- 1)))"
proof -
  note inst = formatZodError_keyed_by_first_segment [OF example_formatted_eval]
  from inst have keys: "fst ` set (zr_errors example_formatted) =
      (\<lambda>j. key_of (field_of j)) ` set example_issues" by blast
  from inst have dist: "distinct (map fst (zr_errors example_formatted))" by blast
  have "(\<lambda>j. key_of (field_of j)) ` set example_issues = {''copies'', ''title''}"
    by (auto simp: example_issues_def issue_title_def issue_copies_min_def
        issue_copies_nested_def field_of_def key_of_def)
  with keys have keys': "fst ` set (zr_errors example_formatted) = {''copies'', ''title''}"
    by simp
  have entry: "map_of (zr_errors example_formatted) ''copies'' =
       Some (validator_error_of issue_copies_nested (JNum (- 1)))"
    by (simp add: example_formatted_def)
  from example_formatted_eval keys' dist entry show ?thesis by blast
qed

section \<open>Validation failures\<close>

text \<open>
  A request body whose properties can be read (any body but \<^verbatim>\<open>undefined\<close> and
  \<^verbatim>\<open>null\<close>) and that fails \<^verbatim>\<open>bookSchema\<close> is answered once, with status 400
  and the object \<^verbatim>\<open>formatZodError\<close> builds; nothing is asked of the store. In that
  object's error map every field an issue names has an entry, carrying the message and
  the code (as \<^verbatim>\<open>kind\<close>) of the last issue reported on that field, and as value
  what the request body holds under that field.
\<close>

lemma invalid_body_answered_400_with_field_errors:
  assumes "bookSchema reqBody = Inl issues" and "readable reqBody"
  shows "\<exists>r. booksRoutes_post bookSchema create st reqBody =
               (\<lparr>responses = [(400, ValidationFailed r)], db_ops = [], uncaught = None\<rparr>, st)
           \<and> (\<forall>i \<in> set issues. \<exists>e.
                 map_of (zr_errors r) (key_of (field_of i)) = Some e
               \<and> ve_message e = issue_message (last_issue_for (key_of (field_of i)) issues)
               \<and> ve_kind e = issue_code (last_issue_for (key_of (field_of i)) issues)
               \<and> js_get reqBody (key_of (field_of i)) = Inr (ve_value e))"
proof -
  from formatZodError_readable [OF assms(2)]
  obtain r where r: "formatZodError issues reqBody = Inr r" by blast
  have resp: "booksRoutes_post bookSchema create st reqBody =
               (\<lparr>responses = [(400, ValidationFailed r)], db_ops = [], uncaught = None\<rparr>, st)"
    using assms(1) r by (simp add: booksRoutes_post_def status_json_def)
  have "\<exists>e. map_of (zr_errors r) (key_of (field_of i)) = Some e
               \<and> ve_message e = issue_message (last_issue_for (key_of (field_of i)) issues)
               \<and> ve_kind e = issue_code (last_issue_for (key_of (field_of i)) issues)
               \<and> js_get reqBody (key_of (field_of i)) = Inr (ve_value e)"
    if "i \<in> set issues" for i
    using formatZodError_entry [OF r that] by (auto simp: validator_error_of_def)
  with resp show ?thesis by blast
qed

text \<open>
  The lemma at \<open>example_body\<close>: the response is the 400 with \<open>example_formatted\<close>,
  whose entry for \<^verbatim>\<open>title\<close> has the message and code of the issue on the title
  and the rejected value 5.
\<close>

lemma invalid_body_answered_400_with_field_errors_example:
  "example_bookSchema example_body = Inl example_issues
   \<and> readable example_body
   \<and> booksRoutes_post example_bookSchema example_create example_store example_body =
       (\<lparr>responses = [(400, ValidationFailed example_formatted)], db_ops = [], uncaught = None\<rparr>,
        example_store)
   \<and> (\<exists>e. map_of (zr_errors example_formatted) ''title'' = Some e
          \<and> ve_message e = ''Expected string, received number''
          \<and> ve_kind e = ''invalid_type''
          \<and> ve_value e = JNum 5)"
proof -
  have h1: "example_bookSchema example_body = Inl example_issues"
    by (simp add: example_bookSchema_def example_body_def)
  have h2: "readable example_body"
    by (simp add: readable_def example_body_def)
  from invalid_body_answered_400_with_field_errors [where bookSchema = example_bookSchema
      and reqBody = example_body and create = example_create and st = example_store, OF h1 h2]
  obtain r where
    resp: "booksRoutes_post example_bookSchema example_create example_store example_body =
             (\<lparr>responses = [(400, ValidationFailed r)], db_ops = [], uncaught = None\<rparr>,
              example_store)"
    and entries: "\<forall>i \<in> set example_issues. \<exists>e.
                 map_of (zr_errors r) (key_of (field_of i)) = Some e
               \<and> ve_message e = issue_message (last_issue_for (key_of (field_of i)) example_issues)
               \<and> ve_kind e = issue_code (last_issue_for (key_of (field_of i)) example_issues)
               \<and> js_get example_body (key_of (field_of i)) = Inr (ve_value e)"
    by blast
  have "booksRoutes_post example_bookSchema example_create example_store example_body =
       (\<lparr>responses = [(400, ValidationFailed example_formatted)], db_ops = [], uncaught = None\<rparr>,
        example_store)"
    using h1 example_formatted_eval by (simp add: booksRoutes_post_def status_json_def)
  with resp have r: "r = example_formatted" by simp
  have "issue_title \<in> set example_issues" by (simp add: example_issues_def)
  with entries obtain e where
    "map_of (zr_errors r) (key_of (field_of issue_title)) = Some e"
    "ve_message e = issue_message (last_issue_for (key_of (field_of issue_title)) example_issues)"
    "ve_kind e = issue_code (last_issue_for (key_of (field_of issue_title)) example_issues)"
    "js_get example_body (key_of (field_of issue_title)) = Inr (ve_value e)"
    by blast
  then have "map_of (zr_errors example_formatted) ''title'' = Some e
          \<and> ve_message e = ''Expected string, received number''
          \<and> ve_kind e = ''invalid_type''
          \<and> ve_value e = JNum 5"
    unfolding r
    by (simp add: last_issue_for_def example_issues_def issue_title_def issue_copies_min_def
        issue_copies_nested_def field_of_def key_of_def example_body_def)
  with h1 h2 resp r show ?thesis by blast
qed

text \<open>
  A body that is \<^verbatim>\<open>undefined\<close>: the first issue makes \<^verbatim>\<open>formatZodError\<close> read
  \<^verbatim>\<open>source[field]\<close>, which throws. The call stands before the try block, so the
  handler makes no response call at all and the TypeError escapes it.
\<close>

lemma undefined_body_not_answered:
  assumes "bookSchema Undefined = Inl (issue # rest)"
  shows "booksRoutes_post bookSchema create st Undefined =
           (\<lparr>responses = [], db_ops = [], uncaught = Some TypeError\<rparr>, st)"
  using assms by (simp add: booksRoutes_post_def formatZodError_def)

text \<open>
  C8. Not every request body that fails schema validation is answered with a 400. A
  request without a JSON body leaves \<^verbatim>\<open>req.body\<close> undefined; the body schema
  rejects it, and \<^verbatim>\<open>formatZodError\<close> throws a TypeError at
  \<^verbatim>\<open>value: source[field]\<close> before any response is sent: the handler sends no 400
  and no error map, and ends in an uncaught error.
\<close>

theorem undefined_body_fails_validation_without_400:
  "example_bookSchema Undefined = Inl [issue_required]
   \<and> booksRoutes_post example_bookSchema example_create example_store Undefined =
       (\<lparr>responses = [], db_ops = [], uncaught = Some TypeError\<rparr>, example_store)"
proof -
  have rejected: "example_bookSchema Undefined = Inl [issue_required]"
    by (simp add: example_bookSchema_def)
  from rejected undefined_body_not_answered [where bookSchema = example_bookSchema, OF rejected]
  show ?thesis by simp
qed

lemma formatZodError_object: "\<exists>r. formatZodError issues (JObj kvs) = Inr r"
proof -
  have "readable (JObj kvs)" by (simp add: readable_def)
  from format_issues_total [OF this]
  obtain errors where "format_issues issues (JObj kvs) [] = Inr errors" by blast
  then show ?thesis by (simp add: formatZodError_def Let_def)
qed

text \<open>
  C5. When the params schema rejects the route parameters (a malformed identifier), the
  handler answers once, with status 400 and the formatted issues, and returns before any
  operation on the store: no lookup is made, so neither the 404 nor the 500 branch can
  be reached.
\<close>

theorem malformed_id_rejected_before_lookup:
  assumes "bookParamsSchema (JObj reqParams) = Inl issues"
  shows "\<exists>r. formatZodError issues (JObj reqParams) = Inr r
           \<and> booksRoutes_get_by_id bookParamsSchema st reqParams =
               \<lparr>responses = [(400, ValidationFailed r)], db_ops = [], uncaught = None\<rparr>"
proof -
  from formatZodError_object obtain r where r: "formatZodError issues (JObj reqParams) = Inr r"
    by blast
  with assms show ?thesis
    by (simp add: booksRoutes_get_by_id_def status_json_def)
qed

text \<open>The theorem at the identifier \<^verbatim>\<open>zz\<close>, which the example schema rejects.\<close>

theorem malformed_id_rejected_before_lookup_witness:
  "example_bookParamsSchema (JObj [(''bookId'', JStr ''zz'')]) = Inl [issue_bookId]
   \<and> (\<exists>r. formatZodError [issue_bookId] (JObj [(''bookId'', JStr ''zz'')]) = Inr r
          \<and> booksRoutes_get_by_id example_bookParamsSchema example_store [(''bookId'', JStr ''zz'')] =
               \<lparr>responses = [(400, ValidationFailed r)], db_ops = [], uncaught = None\<rparr>)"
proof -
  have h: "example_bookParamsSchema (JObj [(''bookId'', JStr ''zz'')]) = Inl [issue_bookId]"
    by (simp add: example_bookParamsSchema_def)
  from h malformed_id_rejected_before_lookup [where bookParamsSchema = example_bookParamsSchema
      and reqParams = "[(''bookId'', JStr ''zz'')]" and st = example_store, OF h]
  show ?thesis by blast
qed

section \<open>A book that is not in the store\<close>

lemma get_by_id_absent:
  assumes "bookParamsSchema (JObj reqParams) = Inr parsed"
    and "map_of reqParams ''bookId'' = Some bookId"
    and "failure st = None"
    and "find (\<lambda>b. JStr (book_id b) = bookId) (docs st) = None"
  shows "booksRoutes_get_by_id bookParamsSchema st reqParams =
           \<lparr>responses =
              [(404, Failure ''Book not found''),
               (200, BookData ''Book retrieved successfully'' None),
               (500, FailureWith ''Error retrieving book''
                       ''Cannot set headers after they are sent to the client'')],
            db_ops = [OpFindById],
            uncaught = Some ERR_HTTP_HEADERS_SENT\<rparr>"
  using assms
  by (simp add: booksRoutes_get_by_id_def booksRoutes_get_by_id_try_def findById_def
      status_json_def catch_500_def)

text \<open>
  C4. For a well-formed identifier that matches no stored book the handler does not stop
  after the 404: it goes on to call \<^verbatim>\<open>res.status(200).json\<close> with a null book,
  which throws because the response is already sent, and the catch block then calls
  \<^verbatim>\<open>res.status(500).json\<close>, which throws again and is not caught. The client is
  sent the 404; the handler makes three response calls and ends in an error.
\<close>

theorem get_by_id_absent_book_responds_thrice:
  "booksRoutes_get_by_id example_bookParamsSchema example_store
     [(''bookId'', JStr ''507f1f77bcf86cd799439011'')] =
     \<lparr>responses =
        [(404, Failure ''Book not found''),
         (200, BookData ''Book retrieved successfully'' None),
         (500, FailureWith ''Error retrieving book''
                 ''Cannot set headers after they are sent to the client'')],
      db_ops = [OpFindById],
      uncaught = Some ERR_HTTP_HEADERS_SENT\<rparr>
   \<and> delivered (responses (booksRoutes_get_by_id example_bookParamsSchema example_store
         [(''bookId'', JStr ''507f1f77bcf86cd799439011'')])) =
       Some (404, Failure ''Book not found'')"
proof -
  have parsed: "example_bookParamsSchema (JObj [(''bookId'', JStr ''507f1f77bcf86cd799439011'')]) =
      Inr ''507f1f77bcf86cd799439011''"
    by (simp add: example_bookParamsSchema_def is_hex_def)
  have absent: "find (\<lambda>b. JStr (book_id b) = JStr ''507f1f77bcf86cd799439011'') (docs example_store) = None"
    by (simp add: example_store_def example_book_def)
  have up: "failure example_store = None" by (simp add: example_store_def)
  have "map_of [(''bookId'', JStr ''507f1f77bcf86cd799439011'')] ''bookId'' =
      Some (JStr ''507f1f77bcf86cd799439011'')" by simp
  from get_by_id_absent [where bookParamsSchema = example_bookParamsSchema
      and reqParams = "[(''bookId'', JStr ''507f1f77bcf86cd799439011'')]",
      OF parsed this up absent]
  show ?thesis
    by (simp add: delivered_def)
qed

section \<open>The listing\<close>

lemma toUpperCase_char_idem: "toUpperCase_char (toUpperCase_char c) = toUpperCase_char c"
proof (cases "97 \<le> (of_char c :: nat) \<and> (of_char c :: nat) \<le> 122")
  case True
  define n where "n = (of_char c :: nat)"
  from True have range: "97 \<le> n" "n \<le> 122" by (simp_all add: n_def)
  then have "(n - 32) mod 256 = n - 32" by (intro mod_less) arith
  then have up: "(of_char (char_of (n - 32)) :: nat) = n - 32" by simp
  from range have out: "\<not> (97 \<le> n - 32 \<and> n - 32 \<le> 122)" by arith
  from True have "toUpperCase_char c = char_of (n - 32)"
    by (simp add: toUpperCase_char_def Let_def n_def)
  moreover have "toUpperCase_char (char_of (n - 32)) = char_of (n - 32)"
    unfolding toUpperCase_char_def Let_def up using out by (simp only: if_False)
  ultimately show ?thesis by simp
next
  case False
  have "toUpperCase_char c = c"
    unfolding toUpperCase_char_def Let_def using False by (simp only: if_False)
  then show ?thesis by simp
qed

lemma toUpperCase_idem: "toUpperCase (toUpperCase s) = toUpperCase s"
  by (simp add: toUpperCase_def toUpperCase_char_idem)

lemma booksRoutes_get_ok:
  assumes "reqQuery \<noteq> []" and "querySchema (JObj reqQuery) = Inr parsed"
    and "failure st = None" and "0 \<le> (page_of parsed - 1) * limit_of parsed"
  shows "booksRoutes_get srt querySchema st reqQuery =
     \<lparr>responses =
        [(200, BookList ''Books retrieved successfully''
           (limit_docs (limit_of parsed)
              (drop (nat ((page_of parsed - 1) * limit_of parsed))
                 (sort_docs srt (build_sortOptions parsed)
                    (matching (build_query parsed) (docs st)))))
           \<lparr> currentPage = page_of parsed,
             totalPages = math_ceil_div (int (length (matching (build_query parsed) (docs st))))
                            (limit_of parsed),
             totalBooks = int (length (matching (build_query parsed) (docs st))),
             pageLimit = limit_of parsed,
             hasNextPage =
               (case math_ceil_div (int (length (matching (build_query parsed) (docs st))))
                       (limit_of parsed) of
                  Some tp \<Rightarrow> page_of parsed < tp
                | None \<Rightarrow> 0 < int (length (matching (build_query parsed) (docs st)))),
             hasPrevPage = (1 < page_of parsed) \<rparr>)],
      db_ops = [OpCountDocuments, OpFind],
      uncaught = None\<rparr>"
  using assms
  by (simp add: booksRoutes_get_def booksRoutes_get_try_def countDocuments_def find_docs_def
      status_json_def catch_500_def Let_def)

text \<open>
  C6. For a query with parameters that the schema accepts, with limit and page at least
  1 (after the defaults 10 and 1), and a store that answers, the handler answers once,
  with status 200, and the pagination metadata is: \<^verbatim>\<open>currentPage\<close> the page,
  \<^verbatim>\<open>totalBooks\<close> the number of documents that match the filter (before skip and
  limit), \<^verbatim>\<open>totalPages\<close> the ceiling of \<^verbatim>\<open>totalBooks / limit\<close>,
  \<^verbatim>\<open>hasNextPage\<close> whether the page is below \<^verbatim>\<open>totalPages\<close>, and
  \<^verbatim>\<open>hasPrevPage\<close> whether the page is above 1.
\<close>

theorem listing_pagination_metadata:
  assumes "reqQuery \<noteq> []" and "querySchema (JObj reqQuery) = Inr parsed"
    and "failure st = None" and "1 \<le> limit_of parsed" and "1 \<le> page_of parsed"
  shows "\<exists>books pg.
      booksRoutes_get srt querySchema st reqQuery =
        \<lparr>responses = [(200, BookList ''Books retrieved successfully'' books pg)],
         db_ops = [OpCountDocuments, OpFind], uncaught = None\<rparr>
    \<and> currentPage pg = page_of parsed
    \<and> totalBooks pg = int (length (matching (build_query parsed) (docs st)))
    \<and> totalPages pg = Some \<lceil>real_of_int (totalBooks pg) / real_of_int (limit_of parsed)\<rceil>
    \<and> hasNextPage pg =
        (page_of parsed < \<lceil>real_of_int (totalBooks pg) / real_of_int (limit_of parsed)\<rceil>)
    \<and> hasPrevPage pg = (1 < page_of parsed)"
proof -
  from assms(4,5) have skip: "0 \<le> (page_of parsed - 1) * limit_of parsed" by simp
  from assms(4) have nz: "limit_of parsed \<noteq> 0" by simp
  show ?thesis
    unfolding booksRoutes_get_ok [where querySchema = querySchema and parsed = parsed,
        OF assms(1-3) skip]
    using nz by (simp add: math_ceil_div_def)
qed

text \<open>
  The theorem at \<^verbatim>\<open>?filter=fantasy&limit=2&page=2\<close> on the example store: three
  matching books make two pages, and page 2 has a previous page and no next one.
\<close>

lemma toUpperCase_fantasy: "toUpperCase ''fantasy'' = ''FANTASY''"
  by code_simp

lemma example_query_hyps:
  "example_query \<noteq> []"
  "example_querySchema (JObj example_query) = Inr example_parsed"
  "failure example_store = None"
  "1 \<le> limit_of example_parsed"
  "1 \<le> page_of example_parsed"
  by (simp_all add: example_query_def example_querySchema_def example_store_def
      limit_of_def page_of_def example_parsed_def)

theorem listing_pagination_metadata_witness:
  "example_query \<noteq> []
   \<and> example_querySchema (JObj example_query) = Inr example_parsed
   \<and> failure example_store = None
   \<and> 1 \<le> limit_of example_parsed
   \<and> 1 \<le> page_of example_parsed
   \<and> (\<exists>books pg.
        booksRoutes_get example_srt example_querySchema example_store example_query =
          \<lparr>responses = [(200, BookList ''Books retrieved successfully'' books pg)],
           db_ops = [OpCountDocuments, OpFind], uncaught = None\<rparr>
      \<and> currentPage pg = 2 \<and> totalBooks pg = 3 \<and> totalPages pg = Some 2
      \<and> hasNextPage pg = False \<and> hasPrevPage pg = True)"
proof -
  have ev: "page_of example_parsed = 2" "limit_of example_parsed = 2"
    "int (length (matching (build_query example_parsed) (docs example_store))) = 3"
    by (simp_all add: page_of_def limit_of_def example_parsed_def build_query_def
        matching_def example_store_def example_book_def toUpperCase_fantasy)
  from listing_pagination_metadata [where querySchema = example_querySchema
      and parsed = example_parsed and srt = example_srt, OF example_query_hyps]
  obtain books pg where
    "booksRoutes_get example_srt example_querySchema example_store example_query =
          \<lparr>responses = [(200, BookList ''Books retrieved successfully'' books pg)],
           db_ops = [OpCountDocuments, OpFind], uncaught = None\<rparr>"
    "currentPage pg = page_of example_parsed"
    "totalBooks pg = int (length (matching (build_query example_parsed) (docs example_store)))"
    "totalPages pg = Some \<lceil>real_of_int (totalBooks pg) / real_of_int (limit_of example_parsed)\<rceil>"
    "hasNextPage pg =
        (page_of example_parsed < \<lceil>real_of_int (totalBooks pg) / real_of_int (limit_of example_parsed)\<rceil>)"
    "hasPrevPage pg = (1 < page_of example_parsed)"
    by blast
  then have "booksRoutes_get example_srt example_querySchema example_store example_query =
          \<lparr>responses = [(200, BookList ''Books retrieved successfully'' books pg)],
           db_ops = [OpCountDocuments, OpFind], uncaught = None\<rparr>
      \<and> currentPage pg = 2 \<and> totalBooks pg = 3 \<and> totalPages pg = Some 2
      \<and> hasNextPage pg = False \<and> hasPrevPage pg = True"
    by (simp add: ev)
  with example_query_hyps show ?thesis by blast
qed

text \<open>
  C7. For a listing with a genre filter \<open>f\<close>, limit \<open>L\<close> and page \<open>P\<close> (both at least 1)
  the handler answers 200 with at most \<open>L\<close> books; every one of them has the genre
  \<^verbatim>\<open>f.toUpperCase()\<close>, so it equals the filter whatever the letter case of the filter
  is; and the books are the first \<open>L\<close> of the matching documents, in the store's
  order for the sort options, after the first \<open>(P - 1) * L\<close> of them are skipped. The
  store's sort is only assumed to return documents it was given.
\<close>

theorem listing_genre_filter_page:
  assumes "reqQuery \<noteq> []" and "querySchema (JObj reqQuery) = Inr parsed"
    and "failure st = None" and "1 \<le> limit_of parsed" and "1 \<le> page_of parsed"
    and "q_filter parsed = Some f" and "f \<noteq> []"
    and srt: "\<And>field direction ds. set (srt field direction ds) \<subseteq> set ds"
  shows "\<exists>books pg.
      booksRoutes_get srt querySchema st reqQuery =
        \<lparr>responses = [(200, BookList ''Books retrieved successfully'' books pg)],
         db_ops = [OpCountDocuments, OpFind], uncaught = None\<rparr>
    \<and> length books \<le> nat (limit_of parsed)
    \<and> (\<forall>b \<in> set books. genre b = toUpperCase f \<and> toUpperCase (genre b) = toUpperCase f)
    \<and> books =
        take (nat (limit_of parsed))
          (drop (nat ((page_of parsed - 1) * limit_of parsed))
             (sort_docs srt (build_sortOptions parsed)
                (filter (\<lambda>b. genre b = toUpperCase f) (docs st))))"
proof -
  from assms(4,5) have skip: "0 \<le> (page_of parsed - 1) * limit_of parsed" by simp
  from assms(4) have nz: "limit_of parsed \<noteq> 0" "\<bar>limit_of parsed\<bar> = limit_of parsed" by simp_all
  have q: "build_query parsed = Some (toUpperCase f)"
    using assms(6,7) by (simp add: build_query_def)
  define ms where "ms = filter (\<lambda>b. genre b = toUpperCase f) (docs st)"
  define books where
    "books = take (nat (limit_of parsed))
          (drop (nat ((page_of parsed - 1) * limit_of parsed))
             (sort_docs srt (build_sortOptions parsed) ms))"
  have sorted_sub: "set (sort_docs srt (build_sortOptions parsed) ms) \<subseteq> set ms"
    using srt by (auto simp: sort_docs_def split: option.splits)
  have "set books \<subseteq> set (sort_docs srt (build_sortOptions parsed) ms)"
    unfolding books_def by (meson set_take_subset set_drop_subset subset_trans)
  with sorted_sub have sub: "set books \<subseteq> set ms" by blast
  have genres: "\<forall>b \<in> set books. genre b = toUpperCase f \<and> toUpperCase (genre b) = toUpperCase f"
    using sub by (auto simp: ms_def toUpperCase_idem)
  have len: "length books \<le> nat (limit_of parsed)" by (simp add: books_def)
  have "booksRoutes_get srt querySchema st reqQuery =
        \<lparr>responses = [(200, BookList ''Books retrieved successfully'' books
            \<lparr> currentPage = page_of parsed,
             totalPages = math_ceil_div (int (length ms)) (limit_of parsed),
             totalBooks = int (length ms),
             pageLimit = limit_of parsed,
             hasNextPage =
               (case math_ceil_div (int (length ms)) (limit_of parsed) of
                  Some tp \<Rightarrow> page_of parsed < tp
                | None \<Rightarrow> 0 < int (length ms)),
             hasPrevPage = (1 < page_of parsed) \<rparr>)],
         db_ops = [OpCountDocuments, OpFind], uncaught = None\<rparr>"
    unfolding booksRoutes_get_ok [where querySchema = querySchema and parsed = parsed,
        OF assms(1-3) skip] q
    using nz by (simp add: limit_docs_def matching_def books_def ms_def cong: option.case_cong)
  with genres len show ?thesis
    unfolding books_def ms_def by blast
qed

text \<open>
  The theorem at \<^verbatim>\<open>?filter=fantasy&limit=2&page=2\<close> on the example store: the
  first two FANTASY books are skipped and the third is returned.
\<close>

theorem listing_genre_filter_page_witness:
  "example_query \<noteq> []
   \<and> example_querySchema (JObj example_query) = Inr example_parsed
   \<and> failure example_store = None
   \<and> 1 \<le> limit_of example_parsed
   \<and> 1 \<le> page_of example_parsed
   \<and> q_filter example_parsed = Some ''fantasy''
   \<and> ''fantasy'' \<noteq> []
   \<and> (\<forall>field direction ds. set (example_srt field direction ds) \<subseteq> set ds)
   \<and> (\<exists>pg.
        booksRoutes_get example_srt example_querySchema example_store example_query =
          \<lparr>responses = [(200, BookList ''Books retrieved successfully''
                             [example_book ''a4'' ''FANTASY'' 5] pg)],
           db_ops = [OpCountDocuments, OpFind], uncaught = None\<rparr>)"
proof -
  have f: "q_filter example_parsed = Some ''fantasy''" "''fantasy'' \<noteq> []"
    by (simp_all add: example_parsed_def)
  have srt: "set (example_srt field direction ds) \<subseteq> set ds" for field direction ds
    by (simp add: example_srt_def)
  from listing_genre_filter_page [where querySchema = example_querySchema
      and parsed = example_parsed and srt = example_srt, OF example_query_hyps f srt]
  obtain books pg where
    resp: "booksRoutes_get example_srt example_querySchema example_store example_query =
          \<lparr>responses = [(200, BookList ''Books retrieved successfully'' books pg)],
           db_ops = [OpCountDocuments, OpFind], uncaught = None\<rparr>"
    and books: "books =
        take (nat (limit_of example_parsed))
          (drop (nat ((page_of example_parsed - 1) * limit_of example_parsed))
             (sort_docs example_srt (build_sortOptions example_parsed)
                (filter (\<lambda>b. genre b = toUpperCase ''fantasy'') (docs example_store))))"
    by blast
  have "books = [example_book ''a4'' ''FANTASY'' 5]"
    unfolding books
    by (simp add: limit_of_def page_of_def example_parsed_def build_sortOptions_def
        sort_docs_def example_store_def example_book_def toUpperCase_fantasy)
  with resp example_query_hyps f srt show ?thesis by blast
qed

section \<open>connectDB\<close>

lemma connectDB_calls_connected: "isConnected s \<Longrightarrow> connectDB_calls oks s = s"
  by (induction oks) (simp_all add: connectDB_def)

lemma connectDB_calls_count:
  "\<not> isConnected s \<Longrightarrow>
   connect_calls (connectDB_calls oks s) =
     connect_calls s + length (takeWhile Not oks) + (if True \<in> set oks then 1 else 0)
   \<and> isConnected (connectDB_calls oks s) = (True \<in> set oks)"
proof (induction oks arbitrary: s)
  case Nil
  then show ?case by simp
next
  case (Cons ok oks)
  show ?case
  proof (cases ok)
    case True
    then show ?thesis using Cons.prems
      by (simp add: connectDB_def connectDB_calls_connected)
  next
    case False
    then have "\<not> isConnected (snd (connectDB ok s))" using Cons.prems
      by (simp add: connectDB_def)
    from Cons.IH [OF this] False Cons.prems show ?thesis
      by (simp add: connectDB_def)
  qed
qed

text \<open>
  C9, as amended. Starting from the initial module state, sequential calls of
  \<^verbatim>\<open>connectDB\<close> invoke \<^verbatim>\<open>mongoose.connect\<close> once for every call up to and
  including the first one whose connection succeeds, and never after it: the number of
  invocations is the number of failed attempts before the first success, plus one if an
  attempt succeeds; the flag is set exactly when an attempt has succeeded; and after a
  successful call further calls change nothing.
\<close>

theorem connectDB_connects_until_first_success:
  "connect_calls (connectDB_calls oks initial_server) =
     length (takeWhile Not oks) + (if True \<in> set oks then 1 else 0)
   \<and> isConnected (connectDB_calls oks initial_server) = (True \<in> set oks)
   \<and> connectDB_calls later (connectDB_calls (oks @ [True]) initial_server) =
       connectDB_calls (oks @ [True]) initial_server"
proof -
  have init: "\<not> isConnected initial_server" by (simp add: initial_server_def)
  have "isConnected (connectDB_calls (oks @ [True]) initial_server)"
    using connectDB_calls_count [OF init, of "oks @ [True]"] by simp
  then show ?thesis
    using connectDB_calls_count [OF init, of oks] connectDB_calls_connected
    by (simp add: initial_server_def)
qed

text \<open>
  The claim as stated (at most one invocation for any number of sequential calls) fails
  when the first attempt fails: the flag is still unset, and the second call connects
  again.
\<close>

theorem connectDB_twice_counterexample:
  "\<not> connect_calls (connectDB_calls [False, True] initial_server) \<le> 1"
  by (simp add: connectDB_def initial_server_def)

section \<open>The availability invariant\<close>

text \<open>
  C1. Whichever path changes \<^verbatim>\<open>copies\<close>, a direct administrative update or a
  borrow-triggered decrement, the change itself recomputes the flag: when the mutation
  goes through, the book has the new copy count and its \<^verbatim>\<open>available\<close> flag equals
  \<^verbatim>\<open>copies > 0\<close>, whatever the flag was before.
\<close>

theorem copies_change_recomputes_available:
  assumes "change_copies b c = Inr b'"
  shows "available b' = (0 < copies b')
       \<and> copies b' = (case c of AdminUpdate n \<Rightarrow> n | BorrowDecrement q \<Rightarrow> copies b - q)"
  using assms
  by (cases c)
     (auto simp: updateCopies_def updateBookCopiesAndAvailable_def recompute_available_def
           split: if_splits)

text \<open>The theorem at a book with two copies, both of which are borrowed.\<close>

theorem copies_change_recomputes_available_witness:
  "change_copies (example_book ''a1'' ''FANTASY'' 2) (BorrowDecrement 2) =
     Inr ((example_book ''a1'' ''FANTASY'' 2)\<lparr>copies := 0, available := False\<rparr>)
   \<and> available ((example_book ''a1'' ''FANTASY'' 2)\<lparr>copies := 0, available := False\<rparr>) =
       (0 < copies ((example_book ''a1'' ''FANTASY'' 2)\<lparr>copies := 0, available := False\<rparr>))"
proof -
  have h: "change_copies (example_book ''a1'' ''FANTASY'' 2) (BorrowDecrement 2) =
     Inr ((example_book ''a1'' ''FANTASY'' 2)\<lparr>copies := 0, available := False\<rparr>)"
    by (simp add: updateBookCopiesAndAvailable_def recompute_available_def example_book_def)
  from h copies_change_recomputes_available [OF h] show ?thesis by blast
qed

section \<open>Borrowing more than the stock\<close>

text \<open>
  C2. A borrow request for an existing book whose quantity exceeds the book's copies is
  rejected with a 400, and the store is left as it was: no Borrow record is created
  and the book keeps its copies. The error is the business-rule (insufficient stock)
  error whenever the request passes validation, which is checked first.
\<close>

theorem borrow_beyond_stock_rejected:
  assumes "lookup_book lib (borrowed_book request) = Some b"
    and "copies b < quantity request"
  shows "\<exists>e. createBorrow now lib request = (Inl e, lib)
           \<and> status_of e = 400
           \<and> e = (if quantity request < 1 \<or> dueDate request \<le> now
                  then ValidationError else BusinessRuleError)
           \<and> lib_borrows (snd (createBorrow now lib request)) = lib_borrows lib
           \<and> lookup_book (snd (createBorrow now lib request)) (borrowed_book request) = Some b"
  using assms by (simp add: createBorrow_def)

text \<open>The theorem at a request for three copies of a book that has two.\<close>

theorem borrow_beyond_stock_rejected_witness:
  "lookup_book example_library (borrowed_book example_request) =
     Some (example_book ''a1'' ''FANTASY'' 2)
   \<and> copies (example_book ''a1'' ''FANTASY'' 2) < quantity example_request
   \<and> createBorrow 0 example_library example_request = (Inl BusinessRuleError, example_library)
   \<and> status_of BusinessRuleError = 400"
proof -
  have h1: "lookup_book example_library (borrowed_book example_request) =
     Some (example_book ''a1'' ''FANTASY'' 2)"
    by (simp add: lookup_book_def example_library_def example_store_def example_request_def
        example_book_def)
  have h2: "copies (example_book ''a1'' ''FANTASY'' 2) < quantity example_request"
    by (simp add: example_book_def example_request_def)
  from borrow_beyond_stock_rejected [OF h1 h2, of 0]
  obtain e where "createBorrow 0 example_library example_request = (Inl e, example_library)"
    and "e = (if quantity example_request < 1 \<or> dueDate example_request \<le> 0
                  then ValidationError else BusinessRuleError)"
    by blast
  then have "createBorrow 0 example_library example_request =
      (Inl BusinessRuleError, example_library)"
    by (simp add: example_request_def)
  with h1 h2 show ?thesis by simp
qed

section \<open>The borrowed-books summary\<close>

lemma add_to_group_keys:
  "fst ` set (add_to_group k q groups) = insert k (fst ` set groups)"
proof (induction groups)
  case Nil
  show ?case by simp
next
  case (Cons g groups)
  obtain k' t where g: "g = (k', t)" by (cases g)
  show ?case
  proof (cases "k' = k")
    case True
    then show ?thesis by (auto simp: g)
  next
    case False
    then have "fst ` set (add_to_group k q (g # groups)) =
        insert k' (fst ` set (add_to_group k q groups))"
      by (simp add: g)
    also have "\<dots> = insert k (fst ` set (g # groups))"
      unfolding Cons.IH by (auto simp: g)
    finally show ?thesis .
  qed
qed

lemma add_to_group_distinct:
  "distinct (map fst groups) \<Longrightarrow> distinct (map fst (add_to_group k q groups))"
proof (induction groups)
  case Nil
  then show ?case by simp
next
  case (Cons g groups)
  obtain k' t where g: "g = (k', t)" by (cases g)
  from Cons.prems have nin: "k' \<notin> fst ` set groups" and d: "distinct (map fst groups)"
    by (simp_all add: g)
  show ?case
  proof (cases "k' = k")
    case True
    with Cons.prems show ?thesis by (simp add: g)
  next
    case False
    with nin have "k' \<notin> fst ` set (add_to_group k q groups)"
      by (simp add: add_to_group_keys)
    with False Cons.IH [OF d] show ?thesis by (simp add: g)
  qed
qed

lemma add_to_group_lookup:
  "map_of (add_to_group k q groups) k' =
     (if k' = k then Some ((case map_of groups k of None \<Rightarrow> 0 | Some t \<Rightarrow> t) + q)
      else map_of groups k')"
  by (induction groups) auto

lemma fold_groups_keys:
  "fst ` set (fold (\<lambda>r groups. add_to_group (borrowed_book r) (quantity r) groups) rs groups) =
     fst ` set groups \<union> borrowed_book ` set rs"
  by (induction rs arbitrary: groups) (auto simp: add_to_group_keys)

lemma fold_groups_distinct:
  "distinct (map fst groups) \<Longrightarrow>
   distinct (map fst (fold (\<lambda>r groups. add_to_group (borrowed_book r) (quantity r) groups) rs groups))"
  by (induction rs arbitrary: groups) (simp_all add: add_to_group_distinct)

lemma fold_groups_lookup:
  "map_of (fold (\<lambda>r groups. add_to_group (borrowed_book r) (quantity r) groups) rs groups) k =
     (if k \<in> borrowed_book ` set rs \<or> k \<in> fst ` set groups
      then Some ((case map_of groups k of None \<Rightarrow> 0 | Some t \<Rightarrow> t)
                 + sum_list (map quantity (filter (\<lambda>r. borrowed_book r = k) rs)))
      else None)"
proof (induction rs arbitrary: groups)
  case Nil
  show ?case
  proof (cases "map_of groups k")
    case None
    then show ?thesis by (simp add: map_of_eq_None_iff)
  next
    case (Some t)
    from map_of_SomeD [OF Some] have "k \<in> fst ` set groups" by force
    with Some show ?thesis by simp
  qed
next
  case (Cons r rs)
  show ?case
    unfolding fold_simps Cons.IH add_to_group_keys add_to_group_lookup
    by (auto split: option.splits)
qed

lemma group_borrows_total:
  assumes "(k, t) \<in> set (group_borrows rs)"
  shows "t = sum_list (map quantity (filter (\<lambda>r. borrowed_book r = k) rs))"
proof -
  have "distinct (map fst (group_borrows rs))"
    unfolding group_borrows_def by (rule fold_groups_distinct) simp
  with assms have "map_of (group_borrows rs) k = Some t" by simp
  then show ?thesis
    unfolding group_borrows_def fold_groups_lookup by (simp split: if_splits)
qed

lemma map_filter_join_keys:
  "map fst (List.map_filter (join_book lib) groups) =
     filter (\<lambda>k. lookup_book lib k \<noteq> None) (map fst groups)"
  by (induction groups) (auto simp: join_book_def split: option.splits)

lemma lookup_book_Some_iff:
  "(lookup_book lib k \<noteq> None) = (k \<in> book_id ` set (lib_books lib))"
  by (auto simp: lookup_book_def find_None_iff)

text \<open>
  C3. The summary has exactly one row per book of the store that at least one Borrow
  record references, and none for any other book: the rows' book references are
  pairwise distinct and are exactly the stored books with a borrow record, so there are
  as many rows as such books. The row of a book carries the book's title and isbn, and
  its \<^verbatim>\<open>totalQuantityBorrowed\<close> is the sum of \<^verbatim>\<open>quantity\<close> over all Borrow
  records that reference the book.
\<close>

theorem summary_one_row_per_borrowed_book:
  "distinct (map fst (summary_entries lib))
   \<and> set (map fst (summary_entries lib)) =
       {k \<in> book_id ` set (lib_books lib). borrows_of lib k \<noteq> []}
   \<and> length (borrowedBooksSummary lib) =
       card {k \<in> book_id ` set (lib_books lib). borrows_of lib k \<noteq> []}
   \<and> (\<forall>(k, row) \<in> set (summary_entries lib).
         totalQuantityBorrowed row = sum_list (map quantity (borrows_of lib k))
       \<and> (\<exists>b. lookup_book lib k = Some b \<and> bookTitle row = title b \<and> row_isbn row = isbn b))"
proof -
  let ?groups = "group_borrows (lib_borrows lib)"
  have gd: "distinct (map fst ?groups)"
    unfolding group_borrows_def by (rule fold_groups_distinct) simp
  have gk: "fst ` set ?groups = borrowed_book ` set (lib_borrows lib)"
    unfolding group_borrows_def fold_groups_keys by simp
  have keys: "map fst (summary_entries lib) =
      filter (\<lambda>k. lookup_book lib k \<noteq> None) (map fst ?groups)"
    by (simp add: summary_entries_def map_filter_join_keys)
  have dist: "distinct (map fst (summary_entries lib))"
    unfolding keys using gd by simp
  have borrowed: "(k \<in> borrowed_book ` set (lib_borrows lib)) = (borrows_of lib k \<noteq> [])" for k
    by (auto simp: borrows_of_def filter_empty_conv)
  have "set (map fst (summary_entries lib)) =
       {k \<in> fst ` set ?groups. lookup_book lib k \<noteq> None}"
    unfolding keys by (simp only: set_filter set_map)
  also have "\<dots> = {k \<in> book_id ` set (lib_books lib). borrows_of lib k \<noteq> []}"
    unfolding gk lookup_book_Some_iff borrowed by blast
  finally have keyset: "set (map fst (summary_entries lib)) =
       {k \<in> book_id ` set (lib_books lib). borrows_of lib k \<noteq> []}" .
  have "length (borrowedBooksSummary lib) = length (map fst (summary_entries lib))"
    by (simp add: borrowedBooksSummary_def)
  also have "\<dots> = card (set (map fst (summary_entries lib)))"
    using dist by (simp only: distinct_card)
  finally have len: "length (borrowedBooksSummary lib) =
       card {k \<in> book_id ` set (lib_books lib). borrows_of lib k \<noteq> []}"
    unfolding keyset .
  have rows: "totalQuantityBorrowed row = sum_list (map quantity (borrows_of lib k))
       \<and> (\<exists>b. lookup_book lib k = Some b \<and> bookTitle row = title b \<and> row_isbn row = isbn b)"
    if "(k, row) \<in> set (summary_entries lib)" for k row
  proof -
    from that obtain g where g: "g \<in> set ?groups" and j: "join_book lib g = Some (k, row)"
      by (auto simp: summary_entries_def List.map_filter_def)
    from j obtain b where b: "lookup_book lib (fst g) = Some b" and k: "k = fst g"
      and row: "row = \<lparr> bookTitle = title b, row_isbn = isbn b, totalQuantityBorrowed = snd g \<rparr>"
      by (auto simp: join_book_def split: option.splits)
    from g k have "(k, snd g) \<in> set ?groups" by simp
    from group_borrows_total [OF this] have "snd g = sum_list (map quantity (borrows_of lib k))"
      by (simp add: borrows_of_def)
    with b k row show ?thesis by simp
  qed
  from dist keyset len rows show ?thesis by blast
qed

text \<open>
  The theorem at the specification's example: records of 2 and 3 copies of one book and
  5 of another give two rows with total 5 each, and no row for the two books that were
  never borrowed.
\<close>

theorem summary_one_row_per_borrowed_book_witness:
  "borrowedBooksSummary example_library =
     [\<lparr>bookTitle = ''Title a1'', row_isbn = ''isbn-a1'', totalQuantityBorrowed = 5\<rparr>,
      \<lparr>bookTitle = ''Title a4'', row_isbn = ''isbn-a4'', totalQuantityBorrowed = 5\<rparr>]
   \<and> map fst (summary_entries example_library) = [''a1'', ''a4'']
   \<and> distinct (map fst (summary_entries example_library))"
proof -
  have groups: "group_borrows (lib_borrows example_library) = [(''a1'', 5), (''a4'', 5)]"
    by (simp add: group_borrows_def example_library_def)
  have entries: "summary_entries example_library =
      [(''a1'', \<lparr>bookTitle = ''Title a1'', row_isbn = ''isbn-a1'', totalQuantityBorrowed = 5\<rparr>),
       (''a4'', \<lparr>bookTitle = ''Title a4'', row_isbn = ''isbn-a4'', totalQuantityBorrowed = 5\<rparr>)]"
    unfolding summary_entries_def groups
    by (simp add: join_book_def lookup_book_def example_library_def
        example_store_def example_book_def)
  from summary_one_row_per_borrowed_book [of example_library]
  have "distinct (map fst (summary_entries example_library))" by blast
  with entries show ?thesis by (simp add: borrowedBooksSummary_def)
qed

end
